theory Spec2Isabelle
  imports Complex_Main "HOL-Library.Sublist"
begin

section \<open>Python strings\<close>

text \<open>
  Strings are lists of characters. The string methods the services use are modelled on
  ASCII text: a character is one code point below 128, and the white space of
  \<^verbatim>\<open>str.strip\<close> and \<^verbatim>\<open>str.split\<close> is the ASCII white space (tab, line feed, vertical
  tab, form feed, carriage return, the separators 0x1C to 0x1F and the blank).
\<close>

definition is_space :: "char \<Rightarrow> bool" where
  "is_space c = (c \<in> set [CHR 0x09, CHR 0x0A, CHR 0x0B, CHR 0x0C, CHR 0x0D,
                             CHR 0x1C, CHR 0x1D, CHR 0x1E, CHR 0x1F, CHR '' ''])"

text \<open>\<^verbatim>\<open>s.strip()\<close>\<close>

definition strip :: "string \<Rightarrow> string" where
  "strip s = rev (dropWhile is_space (rev (dropWhile is_space s)))"

text \<open>\<^verbatim>\<open>s.lstrip(chars)\<close>\<close>

definition lstrip_chars :: "string \<Rightarrow> string \<Rightarrow> string" where
  "lstrip_chars chars s = dropWhile (\<lambda>c. c \<in> set chars) s"

text \<open>\<^verbatim>\<open>s.startswith(p)\<close>\<close>

definition startswith :: "string \<Rightarrow> string \<Rightarrow> bool" where
  "startswith s p = (take (length p) s = p)"

text \<open>\<^verbatim>\<open>s.split(c)\<close> for a separator of one character: never the empty list.\<close>

fun split_chr :: "char \<Rightarrow> string \<Rightarrow> string list" where
  "split_chr c [] = [[]]"
| "split_chr c (x # xs) =
     (if x = c then [] # split_chr c xs
      else (case split_chr c xs of
              [] \<Rightarrow> [[x]]
            | w # ws \<Rightarrow> (x # w) # ws))"

text \<open>
  \<^verbatim>\<open>line.split(':', 1)[1]\<close>: the text after the first colon. The source indexes the
  result only after \<^verbatim>\<open>line.startswith\<close> of a prefix that ends in a colon, so the
  second part exists.
\<close>

definition after_colon :: "string \<Rightarrow> string" where
  "after_colon line = tl (dropWhile (\<lambda>c. c \<noteq> CHR '':'') line)"

text \<open>\<^verbatim>\<open>s.split()\<close>: the maximal runs of characters that are not white space.\<close>

fun split_ws_acc :: "string \<Rightarrow> string \<Rightarrow> string list" where
  "split_ws_acc w [] = (if w = [] then [] else [rev w])"
| "split_ws_acc w (x # xs) =
     (if is_space x then (if w = [] then split_ws_acc [] xs else rev w # split_ws_acc [] xs)
      else split_ws_acc (x # w) xs)"

definition split_ws :: "string \<Rightarrow> string list" where
  "split_ws s = split_ws_acc [] s"

text \<open>\<^verbatim>\<open>s.lower()\<close> on ASCII letters.\<close>

definition lower_chr :: "char \<Rightarrow> char" where
  "lower_chr c =
     (case map_of (zip ''ABCDEFGHIJKLMNOPQRSTUVWXYZ'' ''abcdefghijklmnopqrstuvwxyz'') c of
        Some l \<Rightarrow> l
      | None \<Rightarrow> c)"

definition lower :: "string \<Rightarrow> string" where
  "lower s = map lower_chr s"

text \<open>\<^verbatim>\<open>sep.join(xs)\<close>\<close>

fun join :: "string \<Rightarrow> string list \<Rightarrow> string" where
  "join sep [] = []"
| "join sep [x] = x"
| "join sep (x # y # ys) = x @ sep @ join sep (y # ys)"

section \<open>Python floats and \<^verbatim>\<open>float(s)\<close>\<close>

text \<open>
  A float is a finite number or one of the three special values. Finite floats are taken
  as the real numbers they denote: rounding to 53 bits is left out, and so is overflow
  to infinity of a literal such as \<^verbatim>\<open>1e999\<close>.
\<close>

datatype pyfloat = Finite real | PosInf | NegInf | NaN

definition is_digit :: "char \<Rightarrow> bool" where
  "is_digit c = (c \<in> set ''0123456789'')"

definition digit_val :: "char \<Rightarrow> nat" where
  "digit_val c = of_char c - 48"

text \<open>
  The \<^verbatim>\<open>digitpart\<close> of the float grammar: digits, with single underscores allowed between
  two digits.
\<close>

fun digitpart_tail :: "string \<Rightarrow> bool" where
  "digitpart_tail [] = True"
| "digitpart_tail [c] = is_digit c"
| "digitpart_tail (c # d # cs) =
     (if c = CHR ''_'' then is_digit d \<and> digitpart_tail (d # cs)
      else is_digit c \<and> digitpart_tail (d # cs))"

definition is_digitpart :: "string \<Rightarrow> bool" where
  "is_digitpart s = (case s of [] \<Rightarrow> False | c # cs \<Rightarrow> is_digit c \<and> digitpart_tail s)"

definition digits_val :: "string \<Rightarrow> nat" where
  "digits_val s = foldl (\<lambda>a c. 10 * a + digit_val c) 0 (filter is_digit s)"

text \<open>
  \<^verbatim>\<open>number ::= [digitpart] "." digitpart | digitpart ["."]\<close>, on a string without
  exponent.
\<close>

definition parse_number :: "string \<Rightarrow> real option" where
  "parse_number m =
     (let ip = takeWhile (\<lambda>c. c \<noteq> CHR ''.'') m;
          r = dropWhile (\<lambda>c. c \<noteq> CHR ''.'') m
      in case r of
           [] \<Rightarrow> (if is_digitpart ip then Some (real (digits_val ip)) else None)
         | _ # fp \<Rightarrow>
             (if (ip = [] \<or> is_digitpart ip) \<and> (fp = [] \<or> is_digitpart fp)
                 \<and> \<not> (ip = [] \<and> fp = [])
              then Some (real (digits_val ip)
                         + real (digits_val fp) / 10 ^ length (filter is_digit fp))
              else None))"

text \<open>\<^verbatim>\<open>exponent ::= ("e" | "E") ["+" | "-"] digitpart\<close>, on the lower-cased text after the e.\<close>

definition parse_exponent :: "string \<Rightarrow> int option" where
  "parse_exponent x =
     (case x of
        [] \<Rightarrow> None
      | c # cs \<Rightarrow>
          (if c = CHR ''-'' then (if is_digitpart cs then Some (- int (digits_val cs)) else None)
           else if c = CHR ''+'' then (if is_digitpart cs then Some (int (digits_val cs)) else None)
           else (if is_digitpart x then Some (int (digits_val x)) else None)))"

definition scale10 :: "real \<Rightarrow> int \<Rightarrow> real" where
  "scale10 x e = (if 0 \<le> e then x * 10 ^ nat e else x / 10 ^ nat (- e))"

definition parse_floatnumber :: "string \<Rightarrow> real option" where
  "parse_floatnumber l =
     (let m = takeWhile (\<lambda>c. c \<noteq> CHR ''e'') l;
          r = dropWhile (\<lambda>c. c \<noteq> CHR ''e'') l
      in case parse_number m of
           None \<Rightarrow> None
         | Some v \<Rightarrow>
             (case r of
                [] \<Rightarrow> Some v
              | _ # x \<Rightarrow> (case parse_exponent x of None \<Rightarrow> None | Some e \<Rightarrow> Some (scale10 v e))))"

text \<open>
  \<^verbatim>\<open>float(s)\<close>: \<open>None\<close> is the \<^verbatim>\<open>ValueError\<close>. White space around the literal is
  ignored, the sign is optional, and \<^verbatim>\<open>inf\<close>, \<^verbatim>\<open>infinity\<close> and \<^verbatim>\<open>nan\<close> are read in any
  case of letters.
\<close>

definition py_float :: "string \<Rightarrow> pyfloat option" where
  "py_float s =
     (let t = strip s;
          neg = (t \<noteq> [] \<and> hd t = CHR ''-'');
          u = lower (if t \<noteq> [] \<and> (hd t = CHR ''-'' \<or> hd t = CHR ''+'') then tl t else t)
      in if u = ''inf'' \<or> u = ''infinity'' then Some (if neg then NegInf else PosInf)
         else if u = ''nan'' then Some NaN
         else (case parse_floatnumber u of
                 None \<Rightarrow> None
               | Some v \<Rightarrow> Some (Finite (if neg then - v else v))))"

text \<open>
  The comparison \<^verbatim>\<open>a < b\<close> of floats: false whenever an operand is the NaN.
\<close>

fun py_lt :: "pyfloat \<Rightarrow> pyfloat \<Rightarrow> bool" where
  "py_lt NaN _ = False"
| "py_lt _ NaN = False"
| "py_lt (Finite a) (Finite b) = (a < b)"
| "py_lt NegInf NegInf = False"
| "py_lt NegInf _ = True"
| "py_lt _ NegInf = False"
| "py_lt PosInf _ = False"
| "py_lt _ PosInf = True"

text \<open>
  \<^verbatim>\<open>min(a, b)\<close> and \<^verbatim>\<open>max(a, b)\<close> of two arguments: the builtin keeps its first
  argument unless the second is strictly smaller (strictly greater for \<^verbatim>\<open>max\<close>).
\<close>

definition py_min :: "pyfloat \<Rightarrow> pyfloat \<Rightarrow> pyfloat" where
  "py_min a b = (if py_lt b a then b else a)"

definition py_max :: "pyfloat \<Rightarrow> pyfloat \<Rightarrow> pyfloat" where
  "py_max a b = (if py_lt a b then b else a)"

text \<open>\<^verbatim>\<open>max(0, min(10, score))\<close>\<close>

definition clamp_0_10 :: "pyfloat \<Rightarrow> pyfloat" where
  "clamp_0_10 score = py_max (Finite 0) (py_min (Finite 10) score)"

text \<open>
  The number a finite float denotes. It is applied to clamped scores only, which are
  always finite.
\<close>

definition finite_value :: "pyfloat \<Rightarrow> real" where
  "finite_value f = (case f of Finite r \<Rightarrow> r | _ \<Rightarrow> 0)"

text \<open>
  \<^verbatim>\<open>round(x, 1)\<close> on a finite float read as a real: the nearest multiple of a tenth,
  a tie going to the even one.
\<close>

definition py_round1 :: "real \<Rightarrow> real" where
  "py_round1 x =
     (let y = x * 10; f = \<lfloor>y\<rfloor>; d = y - of_int f
      in (if d < 1 / 2 then of_int f
          else if 1 / 2 < d then of_int (f + 1)
          else if even f then of_int f else of_int (f + 1)) / 10)"

text \<open>\<^verbatim>\<open>str(n)\<close> of an integer, as the f-strings print it.\<close>

fun show_nat :: "nat \<Rightarrow> string" where
  "show_nat n =
     (if n < 10 then [''0123456789'' ! n]
      else show_nat (n div 10) @ [''0123456789'' ! (n mod 10)])"

definition show_int :: "int \<Rightarrow> string" where
  "show_int i = (if i < 0 then CHR ''-'' # show_nat (nat (- i)) else show_nat (nat i))"

text \<open>
  \<^verbatim>\<open>statistics.mean(xs)\<close>: raises \<^verbatim>\<open>StatisticsError\<close> on no data. An exception of a
  service is the \<open>Inl\<close> of its \<^verbatim>\<open>str()\<close>.
\<close>

definition mean :: "real list \<Rightarrow> string + real" where
  "mean xs =
     (if xs = [] then Inl ''mean requires at least one data point''
      else Inr (sum_list xs / real (length xs)))"

section \<open>The language model\<close>

text \<open>
  The completion service is outside the repository. A request is the data its prompt is
  formatted from, with a number that tells the requests of one run apart; the service
  answers with a text (\<^verbatim>\<open>llm.invoke(prompt).content\<close>) or raises. Nothing is assumed of
  the answers: two requests with the same prompt may be answered differently.
\<close>

datatype prompt =
    Evaluate_answer string string string
  | Consistency "(string \<times> string) list"
  | Overall_feedback string real string string string string
  | Recommendations string "(string \<times> nat) list" string string string
  | Fallback_questions string string
  | Intro_message string
  | Transitions nat

type_synonym llm = "nat \<Rightarrow> prompt \<Rightarrow> string + string"

section \<open>\<^verbatim>\<open>models/request_models.py\<close> and \<^verbatim>\<open>models/response_models.py\<close>\<close>

record InterviewAnswer =
  question_id :: int
  question_text :: string
  answer_text :: string
  answer_duration :: real

record QuestionAnalysis =
  analysis_question_id :: int
  score :: real
  feedback :: string
  strengths :: "string list"
  improvements :: "string list"

record Analytics =
  total_duration :: string
  average_response_time :: real
  speaking_pace :: string
  technical_depth :: string
  communication_clarity :: string
  consistency_score :: "real option"

record ResultsResponse =
  overall_score :: real
  overall_feedback :: string
  question_analysis :: "QuestionAnalysis list"
  analytics :: Analytics
  recommendations :: "string list"

section \<open>\<^verbatim>\<open>services/evaluation_service.py\<close>\<close>

subsection \<open>\<^verbatim>\<open>_evaluate_single_answer\<close>\<close>

text \<open>\<^verbatim>\<open>[s.strip() for s in text.split('|') if s.strip()]\<close>\<close>

definition pipe_items :: "string \<Rightarrow> string list" where
  "pipe_items text = filter (\<lambda>s. s \<noteq> []) (map strip (split_chr CHR ''|'' text))"

text \<open>
  One round of the loop over the lines of the response. The four local variables of the
  source are the fields of the analysis under construction.
\<close>

definition parse_line :: "QuestionAnalysis \<Rightarrow> string \<Rightarrow> QuestionAnalysis" where
  "parse_line acc line0 =
     (let line = strip line0 in
      if startswith line ''SCORE:'' then
        (case py_float (strip (after_colon line)) of
           None \<Rightarrow> acc
         | Some f \<Rightarrow> acc\<lparr>score := finite_value (clamp_0_10 f)\<rparr>)
      else if startswith line ''FEEDBACK:'' then
        acc\<lparr>feedback := strip (after_colon line)\<rparr>
      else if startswith line ''STRENGTHS:'' then
        (let strengths_text = strip (after_colon line) in
         if strengths_text \<noteq> [] \<and> strengths_text \<noteq> ''None''
         then acc\<lparr>strengths := pipe_items strengths_text\<rparr> else acc)
      else if startswith line ''IMPROVEMENTS:'' then
        (let improvements_text = strip (after_colon line) in
         if improvements_text \<noteq> [] \<and> improvements_text \<noteq> ''None''
         then acc\<lparr>improvements := pipe_items improvements_text\<rparr> else acc)
      else acc)"

text \<open>The parse of a response text that the service has returned.\<close>

definition parse_response :: "int \<Rightarrow> string \<Rightarrow> QuestionAnalysis" where
  "parse_response qid content =
     foldl parse_line
       \<lparr>analysis_question_id = qid, score = 5, feedback = ''Unable to generate detailed feedback.'',
        strengths = [], improvements = []\<rparr>
       (split_chr CHR 0x0A (strip content))"

text \<open>
  \<^verbatim>\<open>_evaluate_single_answer\<close>, on the answer of the service to the request number \<open>n\<close>.
  An exception of the service gives the degraded analysis.
\<close>

definition evaluate_single_answer ::
  "llm \<Rightarrow> nat \<Rightarrow> string \<Rightarrow> string \<Rightarrow> string \<Rightarrow> int \<Rightarrow> QuestionAnalysis" where
  "evaluate_single_answer invoke n question answer role qid =
     (case invoke n (Evaluate_answer role question answer) of
        Inr content \<Rightarrow> parse_response qid content
      | Inl e \<Rightarrow>
          \<lparr>analysis_question_id = qid, score = 5,
           feedback = ''Unable to evaluate this response due to a technical issue.'',
           strengths = [], improvements = [''Technical evaluation error occurred'']\<rparr>)"



subsection \<open>\<^verbatim>\<open>_calculate_analytics\<close>\<close>

definition fallback_analytics :: Analytics where
  "fallback_analytics =
     \<lparr>total_duration = ''Unable to calculate'', average_response_time = 0,
      speaking_pace = ''Unknown'', technical_depth = ''Unknown'',
      communication_clarity = ''Unknown'', consistency_score = None\<rparr>"

text \<open>\<^verbatim>\<open>len(qa.answer_text.split())\<close>\<close>

definition word_count :: "InterviewAnswer \<Rightarrow> nat" where
  "word_count qa = length (split_ws (answer_text qa))"

text \<open>
  The body of the \<^verbatim>\<open>try\<close> raises at the first \<^verbatim>\<open>statistics.mean\<close> of an empty
  sequence, or at the division by \<^verbatim>\<open>len(qa_pairs)\<close>; every exception gives the fallback
  record.
\<close>

definition calculate_analytics :: "InterviewAnswer list \<Rightarrow> real list \<Rightarrow> Analytics" where
  "calculate_analytics qa_pairs scores =
     (let total = sum_list (map answer_duration qa_pairs) in
      case mean (map answer_duration qa_pairs) of
        Inl e \<Rightarrow> fallback_analytics
      | Inr avg_response_time \<Rightarrow>
          (let words_per_answer =
                 map (\<lambda>qa. real (word_count qa) / answer_duration qa * 60)
                   (filter (\<lambda>qa. 0 < answer_duration qa) qa_pairs);
               avg_wpm = (case mean words_per_answer of Inr m \<Rightarrow> m | Inl e \<Rightarrow> 120);
               pace = (if avg_wpm < 100 then ''Slow''
                       else if 180 < avg_wpm then ''Fast'' else ''Normal'')
           in case mean scores of
                Inl e \<Rightarrow> fallback_analytics
              | Inr avg_score \<Rightarrow>
                  (if qa_pairs = [] then fallback_analytics
                   else
                     (let depth = (if 8 \<le> avg_score then ''High''
                                   else if 6 \<le> avg_score then ''Medium'' else ''Low'');
                          total_words = sum_list (map word_count qa_pairs);
                          avg_words = real total_words / real (length qa_pairs);
                          clarity =
                            (if 50 \<le> avg_words \<and> 7 \<le> avg_score then ''Excellent''
                             else if 30 \<le> avg_words \<and> 6 \<le> avg_score then ''Good''
                             else if 20 \<le> avg_words then ''Fair''
                             else ''Needs Improvement'');
                          minutes = \<lfloor>total / 60\<rfloor>;
                          seconds = \<lfloor>total - 60 * of_int \<lfloor>total / 60\<rfloor>\<rfloor>
                      in \<lparr>total_duration =
                            show_int minutes @ '' minutes '' @ show_int seconds @ '' seconds'',
                          average_response_time = py_round1 avg_response_time,
                          speaking_pace = pace, technical_depth = depth,
                          communication_clarity = clarity, consistency_score = None\<rparr>))))"

subsection \<open>\<^verbatim>\<open>_analyze_consistency\<close>\<close>

definition analyze_consistency :: "llm \<Rightarrow> nat \<Rightarrow> InterviewAnswer list \<Rightarrow> real" where
  "analyze_consistency invoke n qa_pairs =
     (if length qa_pairs < 2 then 10
      else
        (case invoke n
                (Consistency (map (\<lambda>qa. (question_text qa, take 200 (answer_text qa))) qa_pairs)) of
           Inl e \<Rightarrow> 7
         | Inr content \<Rightarrow>
             (case split_ws (strip content) of
                [] \<Rightarrow> 7
              | w # ws \<Rightarrow>
                  (case py_float w of
                     None \<Rightarrow> 7
                   | Some f \<Rightarrow> finite_value (clamp_0_10 f)))))"

subsection \<open>\<^verbatim>\<open>_calculate_overall_score\<close>\<close>

text \<open>
  The modifier of the consistency is guarded by the truth value of
  \<^verbatim>\<open>analytics.consistency_score\<close>: \<^verbatim>\<open>None\<close> and \<^verbatim>\<open>0.0\<close> are both false.
\<close>

definition modifiers :: "Analytics \<Rightarrow> real" where
  "modifiers a =
     (if communication_clarity a = ''Excellent'' then 0.5
      else if communication_clarity a = ''Good'' then 0.2
      else if communication_clarity a = ''Needs Improvement'' then - 0.3
      else 0)
     + (case consistency_score a of
          None \<Rightarrow> 0
        | Some c \<Rightarrow>
            (if c \<noteq> 0 then (if 8 \<le> c then 0.3 else if c \<le> 5 then - 0.2 else 0) else 0))"

text \<open>
  The \<^verbatim>\<open>except\<close> branch computes the mean again when there are scores; were that to
  raise, the exception would leave the function.
\<close>

definition calculate_overall_score :: "real list \<Rightarrow> Analytics \<Rightarrow> string + real" where
  "calculate_overall_score individual_scores a =
     (case mean individual_scores of
        Inr base_score \<Rightarrow> Inr (max 0 (min 10 (base_score + modifiers a)))
      | Inl e \<Rightarrow> (if individual_scores \<noteq> [] then mean individual_scores else Inr 5))"

subsection \<open>\<^verbatim>\<open>_generate_overall_feedback\<close> and \<^verbatim>\<open>_generate_recommendations\<close>\<close>

definition fallback_feedback :: string where
  "fallback_feedback = ''Thank you for completing the interview. Your responses demonstrated good engagement with the questions and relevant experience for the role.''"

definition generate_overall_feedback ::
  "llm \<Rightarrow> nat \<Rightarrow> real list \<Rightarrow> Analytics \<Rightarrow> string \<Rightarrow> string" where
  "generate_overall_feedback invoke n scores a role =
     (case mean scores of
        Inl e \<Rightarrow> fallback_feedback
      | Inr avg_score \<Rightarrow>
          (case invoke n (Overall_feedback role avg_score (total_duration a)
                            (communication_clarity a) (technical_depth a) (speaking_pace a)) of
             Inl e \<Rightarrow> fallback_feedback
           | Inr content \<Rightarrow> strip content))"

text \<open>
  \<^verbatim>\<open>improvement_counts[improvement] = improvement_counts.get(improvement, 0) + 1\<close> on a
  dictionary in insertion order.
\<close>

fun count_up :: "(string \<times> nat) list \<Rightarrow> string \<Rightarrow> (string \<times> nat) list" where
  "count_up [] k = [(k, 1)]"
| "count_up ((k', c) # d) k = (if k' = k then (k', c + 1) # d else (k', c) # count_up d k)"

text \<open>
  \<^verbatim>\<open>[r.strip().lstrip('1234567890.-) ') for r in response.split('\n') if r.strip()]\<close>,
  the line parse of the recommendations and of the fallback questions.
\<close>

definition numbered_lines :: "string \<Rightarrow> string list" where
  "numbered_lines response =
     map (\<lambda>r. lstrip_chars ''1234567890.-) '' (strip r))
       (filter (\<lambda>r. strip r \<noteq> []) (split_chr CHR 0x0A response))"

definition generate_recommendations ::
  "llm \<Rightarrow> nat \<Rightarrow> QuestionAnalysis list \<Rightarrow> Analytics \<Rightarrow> string \<Rightarrow> string list" where
  "generate_recommendations invoke n question_analyses a role =
     (let all_improvements = concat (map improvements question_analyses);
          improvement_counts = foldl count_up [] all_improvements;
          top_improvements = take 3 (sort_key (\<lambda>kc. - int (snd kc)) improvement_counts)
      in case invoke n (Recommendations role top_improvements (communication_clarity a)
                          (technical_depth a) (speaking_pace a)) of
           Inr content \<Rightarrow> take 5 (numbered_lines (strip content))
         | Inl e \<Rightarrow>
             [''Continue developing your '' @ lower role @ '' skills through hands-on projects'',
              ''Practice explaining technical concepts clearly and concisely'',
              ''Review fundamental concepts relevant to your target role''])"

subsection \<open>\<^verbatim>\<open>evaluate_complete_interview\<close>\<close>

text \<open>The loop over the pairs: the \<open>i\<close>-th pair is scored by the request \<open>n + i\<close>.\<close>

fun evaluate_answers :: "llm \<Rightarrow> nat \<Rightarrow> string \<Rightarrow> InterviewAnswer list \<Rightarrow> QuestionAnalysis list" where
  "evaluate_answers invoke n role [] = []"
| "evaluate_answers invoke n role (qa # qas) =
     evaluate_single_answer invoke n (question_text qa) (answer_text qa) role (question_id qa)
     # evaluate_answers invoke (Suc n) role qas"

text \<open>
  The requests of one evaluation are numbered from \<open>n\<close> in the order the source makes
  them. An exception that reaches the outer \<^verbatim>\<open>except\<close> is raised again with the prefix
  of the source.
\<close>

definition evaluate_complete_interview ::
  "llm \<Rightarrow> nat \<Rightarrow> string \<Rightarrow> InterviewAnswer list \<Rightarrow> string \<Rightarrow> string + ResultsResponse" where
  "evaluate_complete_interview invoke n session_id qa_pairs role =
     (let question_analyses = evaluate_answers invoke n role qa_pairs;
          individual_scores = map score question_analyses;
          n1 = n + length qa_pairs;
          analytics0 = calculate_analytics qa_pairs individual_scores;
          consistency = analyze_consistency invoke n1 qa_pairs;
          n2 = (if length qa_pairs < 2 then n1 else n1 + 1);
          a = analytics0\<lparr>consistency_score := Some consistency\<rparr>
      in case calculate_overall_score individual_scores a of
           Inl e \<Rightarrow> Inl (''Failed to evaluate interview: '' @ e)
         | Inr overall \<Rightarrow>
             (let fb = generate_overall_feedback invoke n2 individual_scores a role;
                  n3 = (if individual_scores = [] then n2 else n2 + 1);
                  recs = generate_recommendations invoke n3 question_analyses a role
              in Inr \<lparr>overall_score = py_round1 overall, overall_feedback = fb,
                      question_analysis = question_analyses, analytics = a,
                      recommendations = recs\<rparr>))"

section \<open>\<^verbatim>\<open>services/question_generator.py\<close>\<close>

text \<open>
  The vector store is outside the repository: \<^verbatim>\<open>similarity_search(query, k=2)\<close> gives the
  page contents of the documents found, or raises; \<^verbatim>\<open>collection_name\<close> is the attribute
  that \<^verbatim>\<open>process_resume\<close> sets.
\<close>

record VectorStore =
  similarity_search :: "string \<Rightarrow> string + string list"
  collection_name :: "string option"

text \<open>
  The structured chain \<^verbatim>\<open>prompt_template | llm | parser\<close>, from the role and the retrieved
  context: the \<^verbatim>\<open>questions\<close> of the parsed \<^verbatim>\<open>InterviewQuestions\<close> (a \<^verbatim>\<open>List[str]\<close> of any
  length), or an exception.
\<close>

type_synonym chain = "string \<Rightarrow> string \<Rightarrow> string + string list"

definition role_queries :: "string \<Rightarrow> string list" where
  "role_queries role =
     (if role = ''SDE'' then
        [''programming languages projects software development'',
         ''technical skills algorithms data structures'',
         ''system design architecture frameworks'']
      else if role = ''Data Scientist'' then
        [''data analysis machine learning models'',
         ''statistics python R SQL databases'',
         ''visualization analytics business insights'']
      else if role = ''Product Manager'' then
        [''product management stakeholder business'',
         ''project management leadership team'',
         ''metrics KPIs user research strategy'']
      else [''experience skills projects''])"

definition get_generic_questions :: "string \<Rightarrow> string list" where
  "get_generic_questions role =
     (if role = ''SDE'' then
        [''Tell me about a challenging software development project you've worked on.'',
         ''How do you approach debugging complex technical issues?'',
         ''Describe your experience with software design patterns and architecture.'',
         ''How do you ensure code quality and maintainability in your projects?'',
         ''What's your approach to learning new technologies and frameworks?'']
      else if role = ''Data Scientist'' then
        [''Describe a data science project where you had to work with messy or incomplete data.'',
         ''How do you approach feature selection and engineering in your models?'',
         ''Tell me about a time when you had to explain complex analytical findings to non-technical stakeholders.'',
         ''What's your process for evaluating and validating machine learning models?'',
         ''How do you stay current with new developments in data science and machine learning?'']
      else if role = ''Product Manager'' then
        [''Describe how you prioritize features when building a product roadmap.'',
         ''Tell me about a time when you had to make a difficult product decision with limited data.'',
         ''How do you gather and incorporate user feedback into product development?'',
         ''Describe your approach to working with cross-functional teams.'',
         ''How do you measure product success and define key performance indicators?'']
      else
        [''Tell me about your professional background.'',
         ''What interests you about this role?'',
         ''Describe a challenging project you've worked on.'',
         ''How do you handle difficult situations at work?'',
         ''What are your career goals?''])"

text \<open>
  \<^verbatim>\<open>_generate_fallback_questions\<close>. The \<^verbatim>\<open>while\<close> of the source ends in \<^verbatim>\<open>break\<close>: it
  runs at most once.
\<close>

definition generate_fallback_questions :: "llm \<Rightarrow> nat \<Rightarrow> string \<Rightarrow> string \<Rightarrow> string list" where
  "generate_fallback_questions invoke n role context =
     (case invoke n (Fallback_questions role context) of
        Inl e \<Rightarrow> get_generic_questions role
      | Inr content \<Rightarrow>
          (let questions = take 5 (numbered_lines (strip content));
               questions' =
                 (if length questions < 5
                  then questions @ drop (length questions) (get_generic_questions role)
                  else questions)
           in take 5 questions'))"

text \<open>The chunks of all queries in order; a query whose search raises is skipped.\<close>

fun retrieve_chunks :: "VectorStore \<Rightarrow> string list \<Rightarrow> string list" where
  "retrieve_chunks vector_db [] = []"
| "retrieve_chunks vector_db (query # queries) =
     (case similarity_search vector_db query of
        Inr docs \<Rightarrow> docs @ retrieve_chunks vector_db queries
      | Inl e \<Rightarrow> retrieve_chunks vector_db queries)"

text \<open>Removal of duplicates that keeps the first occurrence, with the set \<^verbatim>\<open>seen\<close>.\<close>

fun unique_from :: "string list \<Rightarrow> string list \<Rightarrow> string list" where
  "unique_from seen [] = []"
| "unique_from seen (chunk # chunks) =
     (if chunk \<in> set seen then unique_from seen chunks
      else chunk # unique_from (chunk # seen) chunks)"

definition generate_questions ::
  "VectorStore \<Rightarrow> chain \<Rightarrow> llm \<Rightarrow> nat \<Rightarrow> string \<Rightarrow> string \<Rightarrow> string list" where
  "generate_questions vector_db chain_invoke invoke n role resume_path =
     (let relevant_chunks = retrieve_chunks vector_db (role_queries role);
          unique_chunks = unique_from [] relevant_chunks;
          retrieved_context = join [CHR 0x0A, CHR 0x0A] (take 5 unique_chunks)
      in if strip retrieved_context = [] then generate_fallback_questions invoke n role []
         else
           (case chain_invoke role retrieved_context of
              Inr questions \<Rightarrow> questions
            | Inl e \<Rightarrow> generate_fallback_questions invoke n role retrieved_context))"

definition generate_intro_message :: "llm \<Rightarrow> nat \<Rightarrow> string \<Rightarrow> string" where
  "generate_intro_message invoke n role =
     (case invoke n (Intro_message role) of
        Inr content \<Rightarrow> strip content
      | Inl e \<Rightarrow>
          ''Welcome to your '' @ role @ '' interview! I'm excited to learn more about your background and experience. Please start by introducing yourself and telling me a bit about your professional journey.'')"

section \<open>\<^verbatim>\<open>services/transition_generator.py\<close>\<close>

definition default_transitions :: "string list" where
  "default_transitions =
     [''Great! Let's move on to the next question.'',
      ''Excellent answer. Here's another question for you.'',
      ''That's insightful. Let's continue with the next topic.'',
      ''Good explanation. Now let's discuss another aspect.'',
      ''Perfect! Let's explore another area.'']"

definition generate_transitions :: "llm \<Rightarrow> nat \<Rightarrow> nat \<Rightarrow> string list" where
  "generate_transitions invoke n num_questions =
     (case invoke n (Transitions num_questions) of
        Inr content \<Rightarrow>
          (let transitions = take num_questions (numbered_lines (strip content));
               transitions' =
                 (if length transitions < num_questions
                  then transitions @ default_transitions @
                    [''Thank you for that detailed response. Moving forward,'',
                     ''Interesting perspective. Let's shift our focus to'',
                     ''That's very helpful. Now I'd like to ask about'']
                  else transitions)
           in take num_questions transitions')
      | Inl e \<Rightarrow>
          take num_questions
            (concat (replicate (num_questions div length default_transitions + 1)
               default_transitions)))"

section \<open>\<^verbatim>\<open>storage/session_manager.py\<close>\<close>

text \<open>
  The values of the dictionaries that are written as JSON, and of the messages read from
  the speech service.
\<close>

datatype jvalue =
    JNull
  | JBool bool
  | JNum real
  | JStr string
  | JQuestions "(int \<times> string) list"
  | JAnswers "InterviewAnswer list"
  | JResults ResultsResponse

text \<open>A \<^verbatim>\<open>dict\<close> with string keys, in insertion order, each key once.\<close>

type_synonym dict = "(string \<times> jvalue) list"

definition dict_get :: "dict \<Rightarrow> string \<Rightarrow> jvalue option" where
  "dict_get d k = map_of d k"

fun dict_set :: "dict \<Rightarrow> string \<Rightarrow> jvalue \<Rightarrow> dict" where
  "dict_set [] k v = [(k, v)]"
| "dict_set ((k', v') # d) k v = (if k' = k then (k, v) # d else (k', v') # dict_set d k v)"

text \<open>\<^verbatim>\<open>d.update(updates)\<close>\<close>

definition dict_update :: "dict \<Rightarrow> dict \<Rightarrow> dict" where
  "dict_update d updates = foldl (\<lambda>d' kv. dict_set d' (fst kv) (snd kv)) d updates"

text \<open>
  The two directories of JSON files, each a map from the identifier in the file name to
  the dictionary in the file. The directories exist and reading and writing a file
  succeeds, so of the \<^verbatim>\<open>try\<close> blocks of the class only the answers for a missing file
  remain. \<open>evaluation_writes\<close> records every \<^verbatim>\<open>json.dump\<close> into an evaluation file, the
  oldest first; the code does not read it.
\<close>

record SessionManager =
  sessions_dir :: "string \<rightharpoonup> dict"
  evaluations_dir :: "string \<rightharpoonup> dict"
  evaluation_writes :: "(string \<times> dict) list"

definition store_session :: "SessionManager \<Rightarrow> string \<Rightarrow> dict \<Rightarrow> bool \<times> SessionManager" where
  "store_session sm session_id session_data =
     (True, sm\<lparr>sessions_dir := (sessions_dir sm)(session_id \<mapsto> session_data)\<rparr>)"

definition get_session :: "SessionManager \<Rightarrow> string \<Rightarrow> dict option" where
  "get_session sm session_id = sessions_dir sm session_id"

definition store_evaluation :: "SessionManager \<Rightarrow> string \<Rightarrow> dict \<Rightarrow> bool \<times> SessionManager" where
  "store_evaluation sm evaluation_id evaluation_data =
     (True, sm\<lparr>evaluations_dir := (evaluations_dir sm)(evaluation_id \<mapsto> evaluation_data),
               evaluation_writes := evaluation_writes sm @ [(evaluation_id, evaluation_data)]\<rparr>)"

definition get_evaluation :: "SessionManager \<Rightarrow> string \<Rightarrow> dict option" where
  "get_evaluation sm evaluation_id = evaluations_dir sm evaluation_id"

text \<open>\<^verbatim>\<open>if not evaluation_data\<close> holds for a missing file and for the empty dictionary.\<close>

definition update_evaluation :: "SessionManager \<Rightarrow> string \<Rightarrow> dict \<Rightarrow> bool \<times> SessionManager" where
  "update_evaluation sm evaluation_id updates =
     (case get_evaluation sm evaluation_id of
        None \<Rightarrow> (False, sm)
      | Some evaluation_data \<Rightarrow>
          (if evaluation_data = [] then (False, sm)
           else store_evaluation sm evaluation_id (dict_update evaluation_data updates)))"

section \<open>\<^verbatim>\<open>main.py\<close>\<close>

text \<open>
  What an endpoint raises: an \<^verbatim>\<open>HTTPException\<close> with its status code and detail, or any
  other exception, given by its \<^verbatim>\<open>str()\<close>. \<^verbatim>\<open>HTTPException\<close> is a subclass of
  \<^verbatim>\<open>Exception\<close>, so \<^verbatim>\<open>except Exception\<close> catches both. \<open>Internal_server_error e\<close> is the
  detail \<^verbatim>\<open>f"Internal server error: {str(e)}"\<close>.
\<close>

datatype exn = Exception string | HTTPException nat detail
  and detail =
    Unsupported_file_type
  | Invalid_role
  | Session_not_found
  | Internal_server_error exn

record InitializeResponse =
  response_session_id :: string
  intro_message :: string
  questions :: "(int \<times> string) list"
  transitions :: "string list"

record SubmitInterviewRequest =
  session_id :: string
  interview_data :: "InterviewAnswer list"

record SubmitInterviewResponse =
  evaluation_id :: string
  message :: string

text \<open>
  A task handed to \<^verbatim>\<open>background_tasks.add_task\<close>: the arguments of
  \<^verbatim>\<open>process_evaluation_background\<close>. The application is the session manager with the tasks
  that have been added and have not run yet.
\<close>

type_synonym task = "string \<times> dict \<times> InterviewAnswer list"

record App =
  session_manager :: SessionManager
  background_tasks :: "task list"

text \<open>
  \<^verbatim>\<open>Path(filename).suffix\<close> of \<^verbatim>\<open>pathlib\<close> on a POSIX path: in the last component, the text
  from the last dot on, unless that dot is the first or the last character.
\<close>

definition path_name :: "string \<Rightarrow> string" where
  "path_name p =
     (let parts = filter (\<lambda>c. c \<noteq> [] \<and> c \<noteq> ''.'') (split_chr CHR ''/'' p)
      in if parts = [] then [] else last parts)"

definition path_suffix :: "string \<Rightarrow> string" where
  "path_suffix p =
     (let name = path_name p;
          after = rev (takeWhile (\<lambda>c. c \<noteq> CHR ''.'') (rev name))
      in if CHR ''.'' \<in> set name \<and> after \<noteq> [] \<and> Suc (length after) < length name
         then CHR ''.'' # after else [])"

definition allowed_extensions :: "string list" where
  "allowed_extensions = [''.pdf'', ''.docx'', ''.txt'']"

definition valid_roles :: "string list" where
  "valid_roles = [''SDE'', ''Data Scientist'', ''Product Manager'']"

text \<open>\<^verbatim>\<open>[QuestionData(id=i+1, text=q) for i, q in enumerate(questions_list)]\<close>\<close>

definition number_questions :: "string list \<Rightarrow> (int \<times> string) list" where
  "number_questions qs = zip (map (\<lambda>i. int i + 1) [0..<length qs]) qs"

text \<open>
  The body of the \<^verbatim>\<open>try\<close> of \<^verbatim>\<open>initialize_interview\<close>. \<open>filename\<close> is
  \<^verbatim>\<open>resume.filename\<close>, which an upload may lack; \<open>process_resume\<close> is the resume
  processor on the saved file (text extraction, chunking and embedding are outside the
  repository), \<open>uuid\<close> the value of \<^verbatim>\<open>str(uuid.uuid4())\<close> and \<open>now\<close> that of
  \<^verbatim>\<open>time.time()\<close>.
\<close>

definition initialize_body ::
  "(string \<Rightarrow> string + VectorStore) \<Rightarrow> chain \<Rightarrow> llm \<Rightarrow> nat \<Rightarrow> string \<Rightarrow> real \<Rightarrow>
   App \<Rightarrow> string \<Rightarrow> string option \<Rightarrow> (exn + InitializeResponse) \<times> App" where
  "initialize_body process_resume chain_invoke invoke n uuid now app role filename =
     (case filename of
        None \<Rightarrow> (Inl (Exception ''expected str, bytes or os.PathLike object, not NoneType''), app)
      | Some name \<Rightarrow>
          (let file_extension = lower (path_suffix name) in
           if file_extension \<notin> set allowed_extensions
           then (Inl (HTTPException 400 Unsupported_file_type), app)
           else if role \<notin> set valid_roles
           then (Inl (HTTPException 400 Invalid_role), app)
           else
             (let file_path = ''uploads/'' @ uuid @ ''_'' @ name in
              case process_resume file_path of
                Inl e \<Rightarrow> (Inl (Exception e), app)
              | Inr vector_db \<Rightarrow>
                  (let questions_list =
                         generate_questions vector_db chain_invoke invoke n role file_path;
                       qs = number_questions questions_list;
                       intro = generate_intro_message invoke (n + 1) role;
                       trans = generate_transitions invoke (n + 2) (length qs);
                       session_data =
                         [(''session_id'', JStr uuid), (''role'', JStr role),
                          (''resume_path'', JStr file_path), (''questions'', JQuestions qs),
                          (''vector_db_collection'',
                             (case collection_name vector_db of
                                Some c \<Rightarrow> JStr c
                              | None \<Rightarrow> JNull)),
                          (''created_at'', JNum now)];
                       sm = snd (store_session (session_manager app) uuid session_data)
                   in (Inr \<lparr>response_session_id = uuid, intro_message = intro,
                             questions = qs, transitions = trans\<rparr>,
                       app\<lparr>session_manager := sm\<rparr>)))))"

text \<open>
  \<^verbatim>\<open>initialize_interview\<close>: the only handler of the \<^verbatim>\<open>try\<close> is \<^verbatim>\<open>except Exception\<close>,
  which answers every exception of the body with status 500.
\<close>

definition initialize_interview ::
  "(string \<Rightarrow> string + VectorStore) \<Rightarrow> chain \<Rightarrow> llm \<Rightarrow> nat \<Rightarrow> string \<Rightarrow> real \<Rightarrow>
   App \<Rightarrow> string \<Rightarrow> string option \<Rightarrow> (exn + InitializeResponse) \<times> App" where
  "initialize_interview process_resume chain_invoke invoke n uuid now app role filename =
     (case initialize_body process_resume chain_invoke invoke n uuid now app role filename of
        (Inl e, app') \<Rightarrow> (Inl (HTTPException 500 (Internal_server_error e)), app')
      | (Inr response, app') \<Rightarrow> (Inr response, app'))"

text \<open>
  The body of the \<^verbatim>\<open>try\<close> of \<^verbatim>\<open>submit_interview\<close>. \<^verbatim>\<open>session_data["role"]\<close> raises
  \<^verbatim>\<open>KeyError\<close>, whose \<^verbatim>\<open>str()\<close> is the key in quotes, on a session without role, before
  anything is stored.
\<close>

definition submit_body ::
  "string \<Rightarrow> real \<Rightarrow> App \<Rightarrow> SubmitInterviewRequest \<Rightarrow> (exn + SubmitInterviewResponse) \<times> App" where
  "submit_body uuid now app request =
     (case get_session (session_manager app) (session_id request) of
        None \<Rightarrow> (Inl (HTTPException 404 Session_not_found), app)
      | Some session_data \<Rightarrow>
          (if session_data = [] then (Inl (HTTPException 404 Session_not_found), app)
           else
             (case dict_get session_data ''role'' of
                None \<Rightarrow> (Inl (Exception (CHR 0x27 # ''role'' @ [CHR 0x27])), app)
              | Some role \<Rightarrow>
                  (let data =
                         [(''evaluation_id'', JStr uuid),
                          (''session_id'', JStr (session_id request)),
                          (''role'', role),
                          (''interview_data'', JAnswers (interview_data request)),
                          (''submitted_at'', JNum now),
                          (''status'', JStr ''processing'')];
                       sm = snd (store_evaluation (session_manager app) uuid data)
                   in (Inr \<lparr>evaluation_id = uuid,
                             message = ''Interview submitted successfully. Processing results...''\<rparr>,
                       app\<lparr>session_manager := sm,
                           background_tasks :=
                             background_tasks app @
                               [(uuid, session_data, interview_data request)]\<rparr>)))))"

text \<open>
  \<^verbatim>\<open>submit_interview\<close>: \<^verbatim>\<open>except HTTPException: raise\<close> comes first, every other
  exception becomes status 500.
\<close>

definition submit_interview ::
  "string \<Rightarrow> real \<Rightarrow> App \<Rightarrow> SubmitInterviewRequest \<Rightarrow> (exn + SubmitInterviewResponse) \<times> App" where
  "submit_interview uuid now app request =
     (case submit_body uuid now app request of
        (Inl (HTTPException code d), app') \<Rightarrow> (Inl (HTTPException code d), app')
      | (Inl (Exception e), app') \<Rightarrow>
          (Inl (HTTPException 500 (Internal_server_error (Exception e))), app')
      | (Inr response, app') \<Rightarrow> (Inr response, app'))"

text \<open>
  \<^verbatim>\<open>process_evaluation_background\<close>. \<open>evaluate\<close> is the evaluation service called with
  \<^verbatim>\<open>session_data["session_id"]\<close>, the answers and \<^verbatim>\<open>session_data["role"]\<close>; it gives the
  results or raises an exception with the given \<^verbatim>\<open>str()\<close>. A missing key raises
  \<^verbatim>\<open>KeyError\<close> inside the \<^verbatim>\<open>try\<close>. \<^verbatim>\<open>update_evaluation\<close> does not raise, so exactly one of
  the two updates is made.
\<close>

definition process_evaluation_background ::
  "(jvalue \<Rightarrow> InterviewAnswer list \<Rightarrow> jvalue \<Rightarrow> string + ResultsResponse) \<Rightarrow> real \<Rightarrow>
   SessionManager \<Rightarrow> task \<Rightarrow> SessionManager" where
  "process_evaluation_background evaluate now sm t =
     (case t of (eid, session_data, answers) \<Rightarrow>
        (let outcome =
               (case dict_get session_data ''session_id'' of
                  None \<Rightarrow> Inl (CHR 0x27 # ''session_id'' @ [CHR 0x27])
                | Some sid \<Rightarrow>
                    (case dict_get session_data ''role'' of
                       None \<Rightarrow> Inl (CHR 0x27 # ''role'' @ [CHR 0x27])
                     | Some role \<Rightarrow> evaluate sid answers role))
         in case outcome of
              Inr results \<Rightarrow>
                snd (update_evaluation sm eid
                       [(''status'', JStr ''completed''), (''results'', JResults results),
                        (''completed_at'', JNum now)])
            | Inl e \<Rightarrow>
                snd (update_evaluation sm eid
                       [(''status'', JStr ''error''), (''error'', JStr e),
                        (''completed_at'', JNum now)])))"

subsection \<open>The application over time\<close>

text \<open>
  The states of the application. It starts with any stored sessions, an empty
  directory of evaluations and no task. A request to initialize or to submit is answered;
  a task that was added runs, in any order, each with its own outcome of the evaluation.
  The other endpoints only read. \<^verbatim>\<open>uuid.uuid4()\<close> does not repeat: the identifier of a
  submission names no stored evaluation.
\<close>

inductive app_reachable :: "App \<Rightarrow> bool" where
  fresh:
    "app_reachable
       \<lparr>session_manager =
          \<lparr>sessions_dir = stored, evaluations_dir = Map.empty, evaluation_writes = []\<rparr>,
        background_tasks = []\<rparr>"
| initialized:
    "app_reachable app \<Longrightarrow>
     initialize_interview process_resume chain_invoke invoke n uuid now app role filename
       = (r, app') \<Longrightarrow>
     app_reachable app'"
| submitted:
    "app_reachable app \<Longrightarrow>
     evaluations_dir (session_manager app) uuid = None \<Longrightarrow>
     submit_interview uuid now app request = (r, app') \<Longrightarrow>
     app_reachable app'"
| task_run:
    "app_reachable app \<Longrightarrow>
     background_tasks app = before @ t # after \<Longrightarrow>
     app_reachable
       (app\<lparr>session_manager :=
              process_evaluation_background evaluate now (session_manager app) t,
            background_tasks := before @ after\<rparr>)"

text \<open>
  The values of \<^verbatim>\<open>status\<close> that have been written to the file of an evaluation, the
  oldest first, and whether the task of an evaluation has still to run.
\<close>

definition status_history :: "App \<Rightarrow> string \<Rightarrow> jvalue option list" where
  "status_history app eid =
     map (\<lambda>w. dict_get (snd w) ''status'')
       (filter (\<lambda>w. fst w = eid) (evaluation_writes (session_manager app)))"

definition task_pending :: "App \<Rightarrow> string \<Rightarrow> bool" where
  "task_pending app eid = (eid \<in> set (map fst (background_tasks app)))"

text \<open>
  The three states of the file of an evaluation: written once with status
  \<^verbatim>\<open>processing\<close> and its task still to run; written a second and last time with status
  \<^verbatim>\<open>completed\<close> and the results; or written a second and last time with status \<^verbatim>\<open>error\<close>
  and the error string.
\<close>

definition is_processing :: "App \<Rightarrow> string \<Rightarrow> dict \<Rightarrow> bool" where
  "is_processing app eid d =
     (status_history app eid = [Some (JStr ''processing'')] \<and> task_pending app eid
      \<and> dict_get d ''status'' = Some (JStr ''processing'')
      \<and> dict_get d ''results'' = None \<and> dict_get d ''error'' = None)"

definition is_completed :: "App \<Rightarrow> string \<Rightarrow> dict \<Rightarrow> bool" where
  "is_completed app eid d =
     (status_history app eid = [Some (JStr ''processing''), Some (JStr ''completed'')]
      \<and> \<not> task_pending app eid
      \<and> dict_get d ''status'' = Some (JStr ''completed'')
      \<and> dict_get d ''results'' \<noteq> None \<and> dict_get d ''error'' = None)"

definition is_error :: "App \<Rightarrow> string \<Rightarrow> dict \<Rightarrow> bool" where
  "is_error app eid d =
     (status_history app eid = [Some (JStr ''processing''), Some (JStr ''error'')]
      \<and> \<not> task_pending app eid
      \<and> dict_get d ''status'' = Some (JStr ''error'')
      \<and> dict_get d ''results'' = None \<and> dict_get d ''error'' \<noteq> None)"

definition lineage_ok :: "App \<Rightarrow> string \<Rightarrow> bool" where
  "lineage_ok app eid =
     (case evaluations_dir (session_manager app) eid of
        None \<Rightarrow> status_history app eid = [] \<and> \<not> task_pending app eid
      | Some d \<Rightarrow>
          d \<noteq> [] \<and> (is_processing app eid d \<or> is_completed app eid d \<or> is_error app eid d))"

section \<open>\<^verbatim>\<open>graph2.py\<close>: the speech stream\<close>

subsection \<open>\<^verbatim>\<open>AudioStreamer\<close>\<close>

text \<open>
  \<^verbatim>\<open>audio_queue\<close> is a \<^verbatim>\<open>queue.Queue()\<close> made without \<^verbatim>\<open>maxsize\<close>: \<^verbatim>\<open>put\<close> appends at once,
  whatever the length, and \<^verbatim>\<open>get\<close> takes the oldest item. An item is a chunk of audio
  bytes or the sentinel \<^verbatim>\<open>None\<close>. The thread of \<^verbatim>\<open>audio_thread\<close> is the \<open>worker\<close> of the
  stream below.
\<close>

record AudioStreamer =
  audio_queue :: "string option list"
  is_playing :: bool

definition new_streamer :: AudioStreamer where
  "new_streamer = \<lparr>audio_queue = [], is_playing = False\<rparr>"

definition add_audio_chunk :: "AudioStreamer \<Rightarrow> string \<Rightarrow> AudioStreamer" where
  "add_audio_chunk a chunk = a\<lparr>audio_queue := audio_queue a @ [Some chunk]\<rparr>"

definition stop :: "AudioStreamer \<Rightarrow> AudioStreamer" where
  "stop a = a\<lparr>is_playing := False, audio_queue := audio_queue a @ [None]\<rparr>"

subsection \<open>\<^verbatim>\<open>receive_audio_stream\<close>\<close>

text \<open>
  What \<^verbatim>\<open>await websocket.recv()\<close> gives: a message whose JSON is an object, a message
  that is no JSON object (\<^verbatim>\<open>json.loads\<close> or \<^verbatim>\<open>data.get\<close> raises), or the exception
  \<^verbatim>\<open>ConnectionClosed\<close>.
\<close>

datatype frame = Message dict | Not_an_object | Connection_closed

text \<open>The truth value of a JSON value in a condition.\<close>

fun truthy :: "jvalue \<Rightarrow> bool" where
  "truthy JNull = False"
| "truthy (JBool b) = b"
| "truthy (JNum x) = (x \<noteq> 0)"
| "truthy (JStr t) = (t \<noteq> [])"
| "truthy (JQuestions qs) = (qs \<noteq> [])"
| "truthy (JAnswers as) = (as \<noteq> [])"
| "truthy (JResults r) = True"

text \<open>\<^verbatim>\<open>data.get(key)\<close> in a condition: a missing key gives \<^verbatim>\<open>None\<close>.\<close>

definition get_truthy :: "dict \<Rightarrow> string \<Rightarrow> bool" where
  "get_truthy d k = (case dict_get d k of None \<Rightarrow> False | Some v \<Rightarrow> truthy v)"

text \<open>
  One round of the \<^verbatim>\<open>while True\<close>: whether the loop goes on, and the streamer. Both
  handlers are outside the loop, so any exception ends it; \<open>b64decode\<close> is
  \<^verbatim>\<open>base64.b64decode\<close>, with \<open>Inl\<close> for its exception.
\<close>

definition receive_message ::
  "(string \<Rightarrow> string + string) \<Rightarrow> AudioStreamer \<Rightarrow> frame \<Rightarrow> bool \<times> AudioStreamer" where
  "receive_message b64decode a f =
     (case f of
        Connection_closed \<Rightarrow> (False, a)
      | Not_an_object \<Rightarrow> (False, a)
      | Message d \<Rightarrow>
          (if get_truthy d ''audio'' then
             (case dict_get d ''audio'' of
                Some (JStr t) \<Rightarrow>
                  (case b64decode t of
                     Inr audio_chunk \<Rightarrow> (True, add_audio_chunk a audio_chunk)
                   | Inl e \<Rightarrow> (False, a))
              | _ \<Rightarrow> (False, a))
           else if get_truthy d ''isFinal'' then (False, a)
           else (True, a)))"

text \<open>
  The loop on the messages that the service delivers, in their order. When they run out
  the task is waiting in \<^verbatim>\<open>recv\<close>: the result is the streamer at that moment.
\<close>

fun receive_audio_stream ::
  "(string \<Rightarrow> string + string) \<Rightarrow> frame list \<Rightarrow> AudioStreamer \<Rightarrow> AudioStreamer" where
  "receive_audio_stream b64decode [] a = a"
| "receive_audio_stream b64decode (f # fs) a =
     (case receive_message b64decode a f of
        (True, a') \<Rightarrow> receive_audio_stream b64decode fs a'
      | (False, a') \<Rightarrow> a')"

subsection \<open>The receiving task and the playback thread together\<close>

text \<open>
  The thread of \<^verbatim>\<open>_audio_player\<close>: not started, at the head of the loop, blocked in
  \<^verbatim>\<open>audio_queue.get(timeout=1)\<close>, waiting in the \<^verbatim>\<open>get_busy\<close> loop for a chunk to finish,
  or ended.
\<close>

datatype worker = Not_started | At_loop_head | In_get | Busy string | Ended

text \<open>
  What the player is asked to do, in the order of the calls: \<open>Load c\<close> for
  \<^verbatim>\<open>pygame.mixer.music.load\<close> and \<^verbatim>\<open>play\<close> of a chunk, \<open>Done c\<close> when \<^verbatim>\<open>get_busy\<close> has become
  false, \<open>Failed c\<close> when the playback of the chunk raised.
\<close>

datatype playback = Load string | Done string | Failed string

datatype receiver = Not_connected | Receiving | Finished

text \<open>
  One speech request of \<^verbatim>\<open>text_to_speech_websocket\<close> in a process, with the global
  streamer: \<open>inbox\<close> holds the messages that the service has still to deliver.
\<close>

record Speech =
  streamer :: AudioStreamer
  worker :: worker
  receiver :: receiver
  inbox :: "frame list"
  played :: "playback list"
  stopped :: bool

definition initial_speech :: "frame list \<Rightarrow> Speech" where
  "initial_speech frames =
     \<lparr>streamer = new_streamer, worker = Not_started, receiver = Not_connected,
      inbox = frames, played = [], stopped = False\<rparr>"

text \<open>
  \<^verbatim>\<open>start_audio_thread\<close> on the stream: a thread is made only when \<^verbatim>\<open>is_playing\<close> is
  false.
\<close>

definition start_audio_thread :: "Speech \<Rightarrow> Speech" where
  "start_audio_thread s =
     (if \<not> is_playing (streamer s)
      then s\<lparr>streamer := (streamer s)\<lparr>is_playing := True\<rparr>, worker := At_loop_head\<rparr>
      else s)"

text \<open>
  The atomic steps, interleaved in any order. The receiving task is started after
  \<^verbatim>\<open>start_audio_thread\<close> and handles one message per step. The thread tests
  \<^verbatim>\<open>is_playing\<close>, then takes the oldest item (a time-out on the empty queue leads back to
  the test), then plays the chunk to its end before the next test. \<^verbatim>\<open>stop\<close> is called
  once, when the process exits.
\<close>

inductive step :: "(string \<Rightarrow> string + string) \<Rightarrow> Speech \<Rightarrow> Speech \<Rightarrow> bool"
  for b64decode :: "string \<Rightarrow> string + string" where
  connect:
    "receiver s = Not_connected \<Longrightarrow> \<not> stopped s \<Longrightarrow>
     step b64decode s ((start_audio_thread s)\<lparr>receiver := Receiving\<rparr>)"
| receive:
    "receiver s = Receiving \<Longrightarrow> inbox s = f # fs \<Longrightarrow>
     receive_message b64decode (streamer s) f = (continue, a) \<Longrightarrow>
     step b64decode s
       (s\<lparr>streamer := a, inbox := fs,
          receiver := (if continue then Receiving else Finished)\<rparr>)"
| test_playing:
    "worker s = At_loop_head \<Longrightarrow>
     step b64decode s (s\<lparr>worker := (if is_playing (streamer s) then In_get else Ended)\<rparr>)"
| get_timeout:
    "worker s = In_get \<Longrightarrow> audio_queue (streamer s) = [] \<Longrightarrow>
     step b64decode s (s\<lparr>worker := At_loop_head\<rparr>)"
| get_sentinel:
    "worker s = In_get \<Longrightarrow> audio_queue (streamer s) = None # q \<Longrightarrow>
     step b64decode s (s\<lparr>streamer := (streamer s)\<lparr>audio_queue := q\<rparr>, worker := Ended\<rparr>)"
| get_chunk:
    "worker s = In_get \<Longrightarrow> audio_queue (streamer s) = Some c # q \<Longrightarrow>
     step b64decode s
       (s\<lparr>streamer := (streamer s)\<lparr>audio_queue := q\<rparr>, worker := Busy c,
          played := played s @ [Load c]\<rparr>)"
| get_chunk_failed:
    "worker s = In_get \<Longrightarrow> audio_queue (streamer s) = Some c # q \<Longrightarrow>
     step b64decode s
       (s\<lparr>streamer := (streamer s)\<lparr>audio_queue := q\<rparr>, worker := At_loop_head,
          played := played s @ [Failed c]\<rparr>)"
| finish_chunk:
    "worker s = Busy c \<Longrightarrow>
     step b64decode s (s\<lparr>worker := At_loop_head, played := played s @ [Done c]\<rparr>)"
| exit_process:
    "\<not> stopped s \<Longrightarrow>
     step b64decode s (s\<lparr>streamer := stop (streamer s), stopped := True\<rparr>)"

text \<open>The states that a speech request on the given messages can reach.\<close>

inductive reachable :: "(string \<Rightarrow> string + string) \<Rightarrow> frame list \<Rightarrow> Speech \<Rightarrow> bool"
  for b64decode :: "string \<Rightarrow> string + string" and frames :: "frame list" where
  at_start: "reachable b64decode frames (initial_speech frames)"
| after_step: "reachable b64decode frames s \<Longrightarrow> step b64decode s s' \<Longrightarrow> reachable b64decode frames s'"





definition audio_frame :: "string \<Rightarrow> frame" where
  "audio_frame t = Message [(''audio'', JStr t), (''isFinal'', JNull)]"




text \<open>
  A decoder for the examples, which agrees with \<^verbatim>\<open>base64.b64decode\<close> on the base64 texts of
  the one-byte chunks \<^verbatim>\<open>A\<close>, \<^verbatim>\<open>B\<close> and \<^verbatim>\<open>C\<close> and raises on every other text.
\<close>

definition b64decode_abc :: "string \<Rightarrow> string + string" where
  "b64decode_abc t =
     (if t = ''QQ=='' then Inr ''A''
      else if t = ''Qg=='' then Inr ''B''
      else if t = ''Qw=='' then Inr ''C''
      else Inl ''Incorrect padding'')"

section \<open>Properties of the evaluation service\<close>



subsection \<open>The score of one answer\<close>














subsection \<open>The strengths and improvements of one answer\<close>
























subsection \<open>The overall score\<close>

lemma overall_score_formula:
  "individual_scores \<noteq> [] \<Longrightarrow>
   calculate_overall_score individual_scores a =
     Inr (max 0 (min 10 (sum_list individual_scores / real (length individual_scores)
                          + modifiers a)))"
  by (simp add: calculate_overall_score_def mean_def)

lemma overall_score_all_tens:
  "calculate_overall_score [10, 10, 10]
     \<lparr>total_duration = d, average_response_time = t, speaking_pace = p, technical_depth = td,
      communication_clarity = ''Excellent'', consistency_score = Some 9\<rparr> = Inr 10"
  by (simp add: calculate_overall_score_def mean_def modifiers_def)

text \<open>
  C4. The penalty of 0.2 for a consistency of at most 5 is not applied when the
  consistency is 0: one score of 5, clarity \<^verbatim>\<open>Fair\<close> and consistency 0 give the overall
  score 5, not 4.8, while consistency 1 gives 4.8.
\<close>

theorem overall_score_consistency_zero:
  "calculate_overall_score [5]
     \<lparr>total_duration = ''0 minutes 30 seconds'', average_response_time = 30,
      speaking_pace = ''Normal'', technical_depth = ''Low'',
      communication_clarity = ''Fair'', consistency_score = Some 0\<rparr> = Inr 5
   \<and> calculate_overall_score [5]
     \<lparr>total_duration = ''0 minutes 30 seconds'', average_response_time = 30,
      speaking_pace = ''Normal'', technical_depth = ''Low'',
      communication_clarity = ''Fair'', consistency_score = Some 1\<rparr> = Inr (24 / 5)"
  by (simp add: calculate_overall_score_def mean_def modifiers_def)

subsection \<open>An interview without answers\<close>

text \<open>
  C10. Called with no question-answer pair, \<^verbatim>\<open>evaluate_complete_interview\<close> does not
  raise, whatever the language model does: the result has no question analysis, the
  overall score 5, the fallback analytics (\<^verbatim>\<open>Unable to calculate\<close>, 0, three times
  \<^verbatim>\<open>Unknown\<close>) with the consistency score 10, and the fallback feedback.
\<close>

theorem evaluate_no_answers:
  "evaluate_complete_interview invoke n sid [] role =
     Inr \<lparr>overall_score = 5,
          overall_feedback = fallback_feedback,
          question_analysis = [],
          analytics =
            \<lparr>total_duration = ''Unable to calculate'', average_response_time = 0,
             speaking_pace = ''Unknown'', technical_depth = ''Unknown'',
             communication_clarity = ''Unknown'', consistency_score = Some 10\<rparr>,
          recommendations =
            generate_recommendations invoke n []
              (fallback_analytics\<lparr>consistency_score := Some 10\<rparr>) role\<rparr>"
  by (simp add: evaluate_complete_interview_def calculate_analytics_def analyze_consistency_def
      calculate_overall_score_def generate_overall_feedback_def mean_def fallback_analytics_def
      py_round1_def Let_def)

section \<open>Properties of the question generator\<close>

lemma length_get_generic_questions: "length (get_generic_questions role) = 5"
  by (simp add: get_generic_questions_def)

lemma fallback_questions_five:
  "length (generate_fallback_questions invoke n role context) = 5"
  by (auto simp: generate_fallback_questions_def Let_def length_get_generic_questions
      split: sum.splits)

lemma fallback_question_blank:
  "generate_fallback_questions (\<lambda>n p. Inr ''1.'') 0 ''SDE'' [] ! 0 = []"
  by (simp add: generate_fallback_questions_def numbered_lines_def lstrip_chars_def strip_def
      is_space_def get_generic_questions_def)

text \<open>
  C1. With resume context retrieved and the structured chain answering with three
  questions, \<^verbatim>\<open>generate_questions\<close> returns these three questions for the role SDE:
  the result of the chain is returned as it is, and only the fallback path brings the
  list to five.
\<close>

theorem structured_questions_returned_unchecked:
  "generate_questions
     \<lparr>similarity_search = (\<lambda>query. Inr [''Built a compiler in Rust'']),
      collection_name = Some ''resume_1''\<rparr>
     (\<lambda>role context. Inr [''Why Rust?'', ''Which parser?'', ''What was hard?''])
     invoke n ''SDE'' resume_path
   = [''Why Rust?'', ''Which parser?'', ''What was hard?'']"
  by (simp add: generate_questions_def role_queries_def strip_def is_space_def)

section \<open>Properties of the endpoints\<close>

lemma initialize_never_400:
  "fst (initialize_interview process_resume chain_invoke invoke n uuid now app role filename)
     \<noteq> Inl (HTTPException 400 d)"
  by (simp add: initialize_interview_def split: prod.splits sum.splits)

text \<open>
  C2. A role outside the three roles, with a file named \<^verbatim>\<open>resume.pdf\<close>, and the role SDE
  with a file named \<^verbatim>\<open>resume.exe\<close>: the body raises the \<^verbatim>\<open>HTTPException\<close> with status 400,
  the \<^verbatim>\<open>except Exception\<close> of the endpoint catches it, and the call fails with status 500.
\<close>

theorem initialize_validation_error_is_500:
  "fst (initialize_interview process_resume chain_invoke invoke n uuid now app
          ''Janitor'' (Some ''resume.pdf''))
     = Inl (HTTPException 500 (Internal_server_error (HTTPException 400 Invalid_role)))
   \<and> fst (initialize_interview process_resume chain_invoke invoke n uuid now app
          ''SDE'' (Some ''resume.exe''))
     = Inl (HTTPException 500 (Internal_server_error (HTTPException 400 Unsupported_file_type)))"
  by (simp add: initialize_interview_def initialize_body_def path_suffix_def path_name_def
      lower_def lower_chr_def allowed_extensions_def valid_roles_def)



subsection \<open>The status of an evaluation\<close>

lemma dict_get_dict_set:
  "dict_get (dict_set d k v) k' = (if k' = k then Some v else dict_get d k')"
  by (induction d) (auto simp: dict_get_def)

lemma dict_set_not_empty: "dict_set d k v \<noteq> []"
  by (cases d) (auto split: if_splits)

lemma initialize_keeps_evaluations:
  assumes "initialize_interview process_resume chain_invoke invoke n uuid now app role filename
             = (r, app')"
  shows "evaluations_dir (session_manager app') = evaluations_dir (session_manager app)
       \<and> evaluation_writes (session_manager app') = evaluation_writes (session_manager app)
       \<and> background_tasks app' = background_tasks app"
  using assms
  by (auto simp: initialize_interview_def initialize_body_def store_session_def Let_def
      split: option.splits if_splits sum.splits prod.splits)

lemma submit_interview_cases:
  assumes "submit_interview uuid now app request = (r, app')"
  shows "app' = app
       \<or> (\<exists>d sd. d \<noteq> [] \<and> dict_get d ''status'' = Some (JStr ''processing'')
            \<and> dict_get d ''results'' = None \<and> dict_get d ''error'' = None
            \<and> app' = app\<lparr>session_manager :=
                         (session_manager app)
                           \<lparr>evaluations_dir := (evaluations_dir (session_manager app))(uuid \<mapsto> d),
                            evaluation_writes :=
                              evaluation_writes (session_manager app) @ [(uuid, d)]\<rparr>,
                       background_tasks :=
                         background_tasks app @ [(uuid, sd, interview_data request)]\<rparr>)"
proof (cases "get_session (session_manager app) (session_id request)")
  case None
  with assms show ?thesis by (simp add: submit_interview_def submit_body_def)
next
  case (Some sd)
  show ?thesis
  proof (cases "sd = [] \<or> dict_get sd ''role'' = None")
    case True
    with assms Some show ?thesis
      by (auto simp: submit_interview_def submit_body_def split: if_splits)
  next
    case False
    then obtain role where role: "dict_get sd ''role'' = Some role" and sd: "sd \<noteq> []"
      by auto
    define d where "d = [(''evaluation_id'', JStr uuid), (''session_id'', JStr (session_id request)),
      (''role'', role), (''interview_data'', JAnswers (interview_data request)),
      (''submitted_at'', JNum now), (''status'', JStr ''processing'')]"
    have "app' = app\<lparr>session_manager :=
                         (session_manager app)
                           \<lparr>evaluations_dir := (evaluations_dir (session_manager app))(uuid \<mapsto> d),
                            evaluation_writes :=
                              evaluation_writes (session_manager app) @ [(uuid, d)]\<rparr>,
                       background_tasks :=
                         background_tasks app @ [(uuid, sd, interview_data request)]\<rparr>"
      using assms Some role sd
      by (simp add: submit_interview_def submit_body_def store_evaluation_def Let_def d_def)
    moreover have "d \<noteq> [] \<and> dict_get d ''status'' = Some (JStr ''processing'')
            \<and> dict_get d ''results'' = None \<and> dict_get d ''error'' = None"
      by (simp add: d_def dict_get_def)
    ultimately show ?thesis by blast
  qed
qed

lemma process_evaluation_background_cases:
  assumes "evaluations_dir sm eid = Some d" and "d \<noteq> []"
  shows "\<exists>d'. process_evaluation_background evaluate now sm (eid, sd, answers)
             = sm\<lparr>evaluations_dir := (evaluations_dir sm)(eid \<mapsto> d'),
                  evaluation_writes := evaluation_writes sm @ [(eid, d')]\<rparr>
           \<and> d' \<noteq> []
           \<and> (dict_get d' ''status'' = Some (JStr ''completed'')
                \<and> dict_get d' ''results'' \<noteq> None
                \<and> dict_get d' ''error'' = dict_get d ''error''
              \<or> dict_get d' ''status'' = Some (JStr ''error'')
                \<and> dict_get d' ''error'' \<noteq> None
                \<and> dict_get d' ''results'' = dict_get d ''results'')"
  using assms
  by (auto simp: process_evaluation_background_def update_evaluation_def get_evaluation_def
      store_evaluation_def dict_update_def dict_get_dict_set dict_set_not_empty Let_def
      split: option.splits sum.splits)


lemmas lineage_defs = lineage_ok_def is_processing_def is_completed_def is_error_def
  status_history_def task_pending_def

lemma lineage_ok_same:
  assumes "evaluations_dir (session_manager app') = evaluations_dir (session_manager app)"
    and "evaluation_writes (session_manager app') = evaluation_writes (session_manager app)"
    and "background_tasks app' = background_tasks app"
  shows "lineage_ok app' eid = lineage_ok app eid"
proof -
  from assms have "status_history app' eid = status_history app eid"
    and "task_pending app' eid = task_pending app eid"
    by (simp_all add: status_history_def task_pending_def)
  with assms(1) show ?thesis
    by (simp add: lineage_ok_def is_processing_def is_completed_def is_error_def
        split: option.splits)
qed

lemma lineage_ok_other:
  assumes "evaluations_dir (session_manager app') = (evaluations_dir (session_manager app))(e \<mapsto> d)"
    and "evaluation_writes (session_manager app') = evaluation_writes (session_manager app) @ [(e, d)]"
    and "(eid \<in> set (map fst (background_tasks app'))) = (eid \<in> set (map fst (background_tasks app)))"
    and "eid \<noteq> e"
  shows "lineage_ok app' eid = lineage_ok app eid"
proof -
  from assms have "status_history app' eid = status_history app eid"
    and "task_pending app' eid = task_pending app eid"
    by (simp_all add: status_history_def task_pending_def)
  with assms(1,4) show ?thesis
    by (simp add: lineage_ok_def is_processing_def is_completed_def is_error_def
        split: option.splits)
qed

lemma app_invariant:
  "app_reachable app \<Longrightarrow>
   distinct (map fst (background_tasks app)) \<and> (\<forall>eid. lineage_ok app eid)"
proof (induction rule: app_reachable.induct)
  case (fresh stored)
  show ?case by (simp add: lineage_defs)
next
  case (initialized app process_resume chain_invoke invoke n uuid now role filename r app')
  note same = initialize_keeps_evaluations [OF initialized.hyps(2)]
  have "lineage_ok app' eid = lineage_ok app eid" for eid
    by (rule lineage_ok_same) (simp_all add: same)
  with same initialized.IH show ?case by simp
next
  case (submitted app uuid now request r app')
  from submit_interview_cases [OF submitted.hyps(3)]
  show ?case
  proof
    assume "app' = app"
    with submitted.IH show ?thesis by simp
  next
    assume "\<exists>d sd. d \<noteq> [] \<and> dict_get d ''status'' = Some (JStr ''processing'')
            \<and> dict_get d ''results'' = None \<and> dict_get d ''error'' = None
            \<and> app' = app\<lparr>session_manager :=
                         (session_manager app)
                           \<lparr>evaluations_dir := (evaluations_dir (session_manager app))(uuid \<mapsto> d),
                            evaluation_writes :=
                              evaluation_writes (session_manager app) @ [(uuid, d)]\<rparr>,
                       background_tasks :=
                         background_tasks app @ [(uuid, sd, interview_data request)]\<rparr>"
    then obtain d sd where d: "d \<noteq> []" "dict_get d ''status'' = Some (JStr ''processing'')"
        "dict_get d ''results'' = None" "dict_get d ''error'' = None"
      and app': "app' = app\<lparr>session_manager :=
                         (session_manager app)
                           \<lparr>evaluations_dir := (evaluations_dir (session_manager app))(uuid \<mapsto> d),
                            evaluation_writes :=
                              evaluation_writes (session_manager app) @ [(uuid, d)]\<rparr>,
                       background_tasks :=
                         background_tasks app @ [(uuid, sd, interview_data request)]\<rparr>"
      by blast
    from submitted.IH have "lineage_ok app uuid" by blast
    with submitted.hyps(2) have new: "status_history app uuid = []" "\<not> task_pending app uuid"
      by (simp_all add: lineage_ok_def)
    have dist: "distinct (map fst (background_tasks app'))"
      using submitted.IH new(2) by (simp add: app' task_pending_def)
    have "lineage_ok app' eid" for eid
    proof (cases "eid = uuid")
      case True
      have "status_history app' uuid = [Some (JStr ''processing'')]"
        using new(1) d(2) by (simp add: app' status_history_def)
      moreover have "task_pending app' uuid"
        by (simp add: app' task_pending_def)
      ultimately have "is_processing app' uuid d"
        using d by (simp add: is_processing_def)
      with d(1) True show ?thesis by (simp add: lineage_ok_def app')
    next
      case False
      have "lineage_ok app' eid = lineage_ok app eid"
        by (rule lineage_ok_other [where e = uuid and d = d]) (use False in \<open>simp_all add: app'\<close>)
      with submitted.IH show ?thesis by blast
    qed
    with dist show ?thesis by blast
  qed
next
  case (task_run app before t after evaluate now)
  obtain e sd answers where t: "t = (e, sd, answers)" by (cases t)
  then have fst_t: "fst t = e" by simp
  let ?app' = "app\<lparr>session_manager :=
              process_evaluation_background evaluate now (session_manager app) t,
            background_tasks := before @ after\<rparr>"
  from task_run.IH have dist: "distinct (map fst (background_tasks app))"
    and ok: "lineage_ok app e" by blast+
  have pending: "task_pending app e"
    by (simp add: task_pending_def task_run.hyps(2) t)
  with ok obtain d where d: "evaluations_dir (session_manager app) e = Some d" "d \<noteq> []"
      and proc: "is_processing app e d"
    by (auto simp: lineage_ok_def is_completed_def is_error_def split: option.splits)
  from process_evaluation_background_cases [OF d, of evaluate now sd answers]
  obtain d' where sm': "process_evaluation_background evaluate now (session_manager app) t
             = (session_manager app)\<lparr>evaluations_dir := (evaluations_dir (session_manager app))(e \<mapsto> d'),
                  evaluation_writes := evaluation_writes (session_manager app) @ [(e, d')]\<rparr>"
    and d': "d' \<noteq> []"
      "dict_get d' ''status'' = Some (JStr ''completed'')
                \<and> dict_get d' ''results'' \<noteq> None
                \<and> dict_get d' ''error'' = dict_get d ''error''
              \<or> dict_get d' ''status'' = Some (JStr ''error'')
                \<and> dict_get d' ''error'' \<noteq> None
                \<and> dict_get d' ''results'' = dict_get d ''results''"
    unfolding t by blast
  from dist have dist': "distinct (map fst (background_tasks ?app'))"
    by (simp add: task_run.hyps(2))
  from dist have gone: "\<not> task_pending ?app' e"
    by (auto simp: task_run.hyps(2) t task_pending_def)
  have "lineage_ok ?app' eid" for eid
  proof (cases "eid = e")
    case True
    have hist: "status_history ?app' e = [Some (JStr ''processing''), dict_get d' ''status'']"
      using proc by (simp add: sm' status_history_def is_processing_def)
    from proc have "dict_get d ''results'' = None" "dict_get d ''error'' = None"
      by (simp_all add: is_processing_def)
    with d'(2) hist gone have "is_completed ?app' e d' \<or> is_error ?app' e d'"
      by (auto simp: is_completed_def is_error_def)
    with d'(1) True show ?thesis by (simp add: lineage_ok_def sm')
  next
    case False
    have "lineage_ok ?app' eid = lineage_ok app eid"
      by (rule lineage_ok_other [where e = e and d = d'])
        (use False in \<open>auto simp: sm' task_run.hyps(2) fst_t\<close>)
    with task_run.IH show ?thesis by blast
  qed
  with dist' show ?case by blast
qed


text \<open>
  C3. In every state that the application reaches, the file of every evaluation has the
  key \<^verbatim>\<open>results\<close> if and only if its status is \<^verbatim>\<open>completed\<close>, and it is in one of three
  states: written once, with status \<^verbatim>\<open>processing\<close>, its task still to run; or written
  exactly twice, the second time by its task, with status \<^verbatim>\<open>completed\<close> and results and
  no error; or written exactly twice, the second time with status \<^verbatim>\<open>error\<close> and an
  error string and no results. So the status changes once, and never again.
\<close>

theorem evaluation_status_written_once:
  assumes "app_reachable app" and "evaluations_dir (session_manager app) eid = Some d"
  shows "(dict_get d ''results'' \<noteq> None) = (dict_get d ''status'' = Some (JStr ''completed''))
       \<and> (is_processing app eid d \<or> is_completed app eid d \<or> is_error app eid d)"
proof -
  from app_invariant [OF assms(1)] have "lineage_ok app eid" by blast
  with assms(2) have states: "is_processing app eid d \<or> is_completed app eid d \<or> is_error app eid d"
    by (simp add: lineage_ok_def)
  then have "(dict_get d ''results'' \<noteq> None) = (dict_get d ''status'' = Some (JStr ''completed''))"
    by (auto simp: is_processing_def is_completed_def is_error_def)
  with states show ?thesis by blast
qed

theorem evaluation_status_written_once_witness:
  "let app0 = \<lparr>session_manager =
                  \<lparr>sessions_dir = [''s-1'' \<mapsto> [(''session_id'', JStr ''s-1''), (''role'', JStr ''SDE'')]],
                   evaluations_dir = Map.empty, evaluation_writes = []\<rparr>,
                background_tasks = []\<rparr>;
       app1 = snd (submit_interview ''e-1'' 100 app0 \<lparr>session_id = ''s-1'', interview_data = []\<rparr>);
       app2 = app1\<lparr>session_manager :=
                     process_evaluation_background (\<lambda>sid answers role. Inl ''model unavailable'') 200
                       (session_manager app1) (hd (background_tasks app1)),
                   background_tasks := []\<rparr>
   in app_reachable app2
      \<and> (\<exists>d. evaluations_dir (session_manager app2) ''e-1'' = Some d \<and> is_error app2 ''e-1'' d)"
proof -
  define app0 where "app0 = \<lparr>session_manager =
                  \<lparr>sessions_dir = [''s-1'' \<mapsto> [(''session_id'', JStr ''s-1''), (''role'', JStr ''SDE'')]],
                   evaluations_dir = Map.empty, evaluation_writes = []\<rparr>,
                background_tasks = []\<rparr>"
  define app1 where "app1 = snd (submit_interview ''e-1'' 100 app0 \<lparr>session_id = ''s-1'', interview_data = []\<rparr>)"
  define app2 where "app2 = app1\<lparr>session_manager :=
                     process_evaluation_background (\<lambda>sid answers role. Inl ''model unavailable'') 200
                       (session_manager app1) (hd (background_tasks app1)),
                   background_tasks := []\<rparr>"
  have r0: "app_reachable app0"
    unfolding app0_def by (rule app_reachable.fresh)
  have r1: "app_reachable app1"
    unfolding app1_def
    by (rule app_reachable.submitted [OF r0, of "''e-1''" 100 _ "fst (submit_interview ''e-1'' 100 app0 \<lparr>session_id = ''s-1'', interview_data = []\<rparr>)"])
       (simp_all add: app0_def)
  have tasks: "background_tasks app1 = [] @ hd (background_tasks app1) # []"
    by (simp add: app1_def app0_def submit_interview_def submit_body_def get_session_def
        dict_get_def store_evaluation_def Let_def)
  have r2: "app_reachable app2"
    using app_reachable.task_run [OF r1 tasks] by (simp add: app2_def)
  have "\<exists>d. evaluations_dir (session_manager app2) ''e-1'' = Some d
          \<and> dict_get d ''status'' = Some (JStr ''error'')"
    by (simp add: app2_def app1_def app0_def submit_interview_def submit_body_def get_session_def
        dict_get_def store_evaluation_def process_evaluation_background_def update_evaluation_def
        get_evaluation_def dict_update_def Let_def)
  then obtain d where d: "evaluations_dir (session_manager app2) ''e-1'' = Some d"
    and st: "dict_get d ''status'' = Some (JStr ''error'')"
    by blast
  from evaluation_status_written_once [OF r2 d] st have "is_error app2 ''e-1'' d"
    by (auto simp: is_processing_def is_completed_def)
  with r2 d show ?thesis
    unfolding Let_def app0_def [symmetric] app1_def [symmetric] app2_def [symmetric] by blast
qed

section \<open>Properties of the speech stream\<close>










lemma receive_audio_frame:
  "t \<noteq> [] \<Longrightarrow> b64decode t = Inr c \<Longrightarrow>
   receive_message b64decode a (audio_frame t) = (True, add_audio_chunk a c)"
  by (simp add: receive_message_def audio_frame_def get_truthy_def dict_get_def)






lemma receive_audio_frames_reachable:
  assumes "list_all2 (\<lambda>t c. t \<noteq> [] \<and> b64decode t = Inr c) ts cs"
    and "reachable b64decode frames s" and "receiver s = Receiving"
    and "inbox s = map audio_frame ts @ rest"
  shows "reachable b64decode frames
           (s\<lparr>streamer := (streamer s)\<lparr>audio_queue := audio_queue (streamer s) @ map Some cs\<rparr>,
              inbox := rest\<rparr>)"
  using assms
proof (induction ts cs arbitrary: s rule: list_all2_induct)
  case Nil
  then have "s\<lparr>streamer := (streamer s)\<lparr>audio_queue := audio_queue (streamer s) @ map Some []\<rparr>,
              inbox := rest\<rparr> = s"
    by simp
  with Nil.prems(1) show ?case by (simp only:)
next
  case (Cons t ts c cs)
  let ?s' = "s\<lparr>streamer := add_audio_chunk (streamer s) c, inbox := map audio_frame ts @ rest,
               receiver := (if True then Receiving else Finished)\<rparr>"
  from Cons.hyps(1) have "receive_message b64decode (streamer s) (audio_frame t)
      = (True, add_audio_chunk (streamer s) c)"
    by (simp add: receive_audio_frame)
  with Cons.prems(2,3) have "step b64decode s ?s'"
    by (intro step.receive) simp_all
  with Cons.prems(1) have "reachable b64decode frames ?s'"
    by (rule reachable.after_step)
  then have "reachable b64decode frames
           (?s'\<lparr>streamer := (streamer ?s')\<lparr>audio_queue := audio_queue (streamer ?s') @ map Some cs\<rparr>,
              inbox := rest\<rparr>)"
    by (rule Cons.IH) simp_all
  then show ?case using Cons.prems(2) by (cases s) (simp add: add_audio_chunk_def)
qed

lemma queue_of_any_length_reachable:
  "\<exists>frames s. reachable b64decode_abc frames s \<and> length (audio_queue (streamer s)) = n"
proof -
  let ?ts = "replicate n ''QQ==''" and ?cs = "replicate n ''A''"
  let ?frames = "map audio_frame ?ts @ []"
  let ?s1 = "(start_audio_thread (initial_speech ?frames))\<lparr>receiver := Receiving\<rparr>"
  have texts: "list_all2 (\<lambda>t c. t \<noteq> [] \<and> b64decode_abc t = Inr c) ?ts ?cs"
    by (simp add: list_all2_conv_all_nth b64decode_abc_def)
  have "step b64decode_abc (initial_speech ?frames) ?s1"
    by (rule step.connect) (simp_all add: initial_speech_def)
  with reachable.at_start have r1: "reachable b64decode_abc ?frames ?s1"
    by (rule reachable.after_step)
  have "reachable b64decode_abc ?frames
          (?s1\<lparr>streamer := (streamer ?s1)\<lparr>audio_queue := audio_queue (streamer ?s1) @ map Some ?cs\<rparr>,
               inbox := []\<rparr>)"
    using texts r1
    by (rule receive_audio_frames_reachable)
       (simp_all add: initial_speech_def start_audio_thread_def new_streamer_def)
  moreover have "length (audio_queue (streamer
          (?s1\<lparr>streamer := (streamer ?s1)\<lparr>audio_queue := audio_queue (streamer ?s1) @ map Some ?cs\<rparr>,
               inbox := []\<rparr>))) = n"
    by (simp add: initial_speech_def start_audio_thread_def new_streamer_def)
  ultimately show ?thesis by blast
qed

text \<open>
  The queue has no capacity: for every bound there is a reachable state with more
  items in the queue.
\<close>

theorem queue_exceeds_every_capacity:
  "\<not> (\<exists>capacity. \<forall>frames s. reachable b64decode_abc frames s
         \<longrightarrow> length (audio_queue (streamer s)) \<le> capacity)"
proof
  assume "\<exists>capacity. \<forall>frames s. reachable b64decode_abc frames s
         \<longrightarrow> length (audio_queue (streamer s)) \<le> capacity"
  then obtain capacity where bound: "\<And>frames s. reachable b64decode_abc frames s
         \<Longrightarrow> length (audio_queue (streamer s)) \<le> capacity"
    by blast
  from queue_of_any_length_reachable [of "Suc capacity"] obtain frames s
    where "reachable b64decode_abc frames s" "length (audio_queue (streamer s)) = Suc capacity"
    by blast
  with bound [of frames s] show False by simp
qed

text \<open>
  C8, as the code has it. The queue is not bounded: the receiving loop appends the
  chunk of every audio message at once, whatever the number of items already queued,
  so that the producer is never held back.
\<close>

theorem every_chunk_is_queued_at_once:
  assumes "list_all2 (\<lambda>t c. t \<noteq> [] \<and> b64decode t = Inr c) ts cs"
  shows "audio_queue (receive_audio_stream b64decode (map audio_frame ts) a)
       = audio_queue a @ map Some cs"
  using assms
proof (induction ts cs arbitrary: a rule: list_all2_induct)
  case Nil
  show ?case by simp
next
  case (Cons t ts c cs)
  then show ?case
    by (simp add: receive_audio_frame add_audio_chunk_def)
qed

theorem every_chunk_is_queued_at_once_witness:
  "audio_queue (receive_audio_stream b64decode_abc (map audio_frame [''QQ=='', ''Qg=='', ''QQ==''])
      \<lparr>audio_queue = [Some ''C'', None], is_playing = False\<rparr>)
   = [Some ''C'', None, Some ''A'', Some ''B'', Some ''A'']"
  using every_chunk_is_queued_at_once
    [of b64decode_abc "[''QQ=='', ''Qg=='', ''QQ=='']" "[''A'', ''B'', ''A'']"
      "\<lparr>audio_queue = [Some ''C'', None], is_playing = False\<rparr>"]
  by (simp add: b64decode_abc_def)

end
